theory Spec2Isabelle
  imports Main
begin

section \<open>Python values\<close>

text \<open>
  The values that reach \<^verbatim>\<open>PDFGenerator\<close> come from \<^verbatim>\<open>json.load\<close> and from the cells
  of a \<^verbatim>\<open>pandas.DataFrame\<close>. A string is the list of the bytes of its UTF-8 encoding
  (equality of strings is equality of their encodings). A float is held as its
  \<^verbatim>\<open>repr\<close>, which identifies it; \<open>PFloatOfInt i\<close> is \<^verbatim>\<open>float(i)\<close>, the float that pandas
  makes of the int \<open>i\<close>. A dict is an association list in insertion order.
\<close>

datatype pyval =
    PNone
  | PBool bool
  | PInt int
  | PFloat string
  | PFloatOfInt int
  | PStr string
  | PList "pyval list"
  | PDict "(string \<times> pyval) list"

text \<open>The exceptions the modelled code can raise; \<open>OtherError\<close> stands for any other.\<close>

datatype py_error =
    KeyError string
  | AttributeError
  | TypeError
  | IndexError
  | OtherError string

fun digits :: "nat \<Rightarrow> string" where
  "digits n =
     (if n < 10 then [char_of (48 + n)]
      else digits (n div 10) @ [char_of (48 + n mod 10)])"

declare digits.simps [simp del]

text \<open>
  \<^verbatim>\<open>str(v)\<close>. Python's rendering of a list or a dict (their \<^verbatim>\<open>repr\<close>) is left open:
  it is the parameter \<open>rp\<close> of everything that calls \<^verbatim>\<open>str\<close>. So is the rendering of
  \<^verbatim>\<open>float(i)\<close> for an int of 2 ^ 53 or more in absolute value; below, it is the digits
  of \<open>i\<close> followed by \<^verbatim>\<open>.0\<close>.
\<close>

definition str_int :: "int \<Rightarrow> string" where
  "str_int i = (if i < 0 then CHR ''-'' # digits (nat (- i)) else digits (nat i))"

fun py_str :: "(pyval \<Rightarrow> string) \<Rightarrow> pyval \<Rightarrow> string" where
  "py_str rp PNone = ''None''"
| "py_str rp (PBool b) = (if b then ''True'' else ''False'')"
| "py_str rp (PInt i) = str_int i"
| "py_str rp (PFloat r) = r"
| "py_str rp (PFloatOfInt i) =
     (if \<bar>i\<bar> < 2 ^ 53 then str_int i @ ''.0'' else rp (PFloatOfInt i))"
| "py_str rp (PStr s) = s"
| "py_str rp (PList xs) = rp (PList xs)"
| "py_str rp (PDict kvs) = rp (PDict kvs)"

text \<open>\<^verbatim>\<open>not v\<close> is \<open>\<not> truthy v\<close>.\<close>

fun truthy :: "pyval \<Rightarrow> bool" where
  "truthy PNone = False"
| "truthy (PBool b) = b"
| "truthy (PInt i) = (i \<noteq> 0)"
| "truthy (PFloat r) = (r \<noteq> ''0.0'' \<and> r \<noteq> ''-0.0'')"
| "truthy (PFloatOfInt i) = (i \<noteq> 0)"
| "truthy (PStr s) = (s \<noteq> [])"
| "truthy (PList xs) = (xs \<noteq> [])"
| "truthy (PDict kvs) = (kvs \<noteq> [])"

text \<open>
  \<^verbatim>\<open>for x in v\<close>: a list yields its items, a dict its keys, a string its characters;
  anything else is not iterable.
\<close>

fun py_iter :: "pyval \<Rightarrow> py_error + pyval list" where
  "py_iter (PList xs) = Inr xs"
| "py_iter (PDict kvs) = Inr (map (\<lambda>kv. PStr (fst kv)) kvs)"
| "py_iter (PStr s) = Inr (map (\<lambda>c. PStr [c]) s)"
| "py_iter v = Inl TypeError"

text \<open>\<^verbatim>\<open>d.get(k, default)\<close> on the items of a dict.\<close>

definition dict_get :: "(string \<times> pyval) list \<Rightarrow> string \<Rightarrow> pyval \<Rightarrow> pyval" where
  "dict_get kvs k d = (case map_of kvs k of Some v \<Rightarrow> v | None \<Rightarrow> d)"

text \<open>A list comprehension whose element expression may raise: the first raise ends it.\<close>

fun comprehension :: "('a \<Rightarrow> py_error + 'b) \<Rightarrow> 'a list \<Rightarrow> py_error + 'b list" where
  "comprehension f [] = Inr []"
| "comprehension f (x # xs) =
     (case f x of
        Inl e \<Rightarrow> Inl e
      | Inr y \<Rightarrow> (case comprehension f xs of Inl e \<Rightarrow> Inl e | Inr ys \<Rightarrow> Inr (y # ys)))"

section \<open>The tabular source\<close>

text \<open>
  A \<^verbatim>\<open>DataFrame\<close>: the column labels, which are distinct as the table parser makes
  them, the rows, each row the list of its cells in column order, and the dtype of each
  column, in column order. A row shorter than the header reads NaN in its missing
  cells, as the table parser fills them; a column with no dtype given is of dtype
  object. \<open>Object\<close> stands for every dtype that is neither \<^verbatim>\<open>int64\<close> nor \<^verbatim>\<open>float64\<close>.

  The field \<open>astype_keeps_missing\<close> is the version of pandas that made the frame:
  from version 3, \<^verbatim>\<open>astype(str)\<close> keeps a missing value missing; before, it renders it
  by \<^verbatim>\<open>str\<close> like any other value.
\<close>

datatype dtype = Int64 | Float64 | Object

record dataframe =
  columns :: "string list"
  rows :: "pyval list list"
  dtypes :: "dtype list"
  astype_keeps_missing :: bool

definition cell :: "string list \<Rightarrow> pyval list \<Rightarrow> string \<Rightarrow> pyval" where
  "cell cols r c = (case map_of (zip cols r) c of Some v \<Rightarrow> v | None \<Rightarrow> PFloat ''nan'')"

text \<open>\<^verbatim>\<open>data[c]\<close>: the column, or \<^verbatim>\<open>KeyError\<close>.\<close>

definition getitem :: "dataframe \<Rightarrow> string \<Rightarrow> py_error + pyval list" where
  "getitem df c =
     (if c \<in> set (columns df) then Inr (map (\<lambda>r. cell (columns df) r c) (rows df))
      else Inl (KeyError c))"

text \<open>A missing value: \<^verbatim>\<open>None\<close> or NaN.\<close>

fun is_missing :: "pyval \<Rightarrow> bool" where
  "is_missing PNone = True"
| "is_missing (PFloat r) = (r = ''nan'')"
| "is_missing v = False"

text \<open>
  \<^verbatim>\<open>series.astype(str)\<close>, its values as \<^verbatim>\<open>tolist()\<close> gives them: the \<^verbatim>\<open>str\<close> of each value,
  but NaN for a missing value where pandas keeps it.
\<close>

definition astype_str :: "bool \<Rightarrow> (pyval \<Rightarrow> string) \<Rightarrow> pyval list \<Rightarrow> pyval list" where
  "astype_str keeps rp col =
     map (\<lambda>v. if keeps \<and> is_missing v then PFloat ''nan'' else PStr (py_str rp v)) col"

text \<open>\<^verbatim>\<open>series == invoice_id\<close>, for a string: NaN equals no string.\<close>

definition series_eq :: "pyval list \<Rightarrow> string \<Rightarrow> bool list" where
  "series_eq series invoice_id = map (\<lambda>v. v = PStr invoice_id) series"

text \<open>\<^verbatim>\<open>data[mask]\<close>: the rows at which the boolean mask holds.\<close>

definition getitem_mask :: "dataframe \<Rightarrow> bool list \<Rightarrow> dataframe" where
  "getitem_mask df msk = df\<lparr>rows := map snd (filter fst (zip msk (rows df)))\<rparr>"

text \<open>\<^verbatim>\<open>df.empty\<close>: some axis has length 0.\<close>

definition empty_frame :: "dataframe \<Rightarrow> bool" where
  "empty_frame df = (columns df = [] \<or> rows df = [])"

text \<open>
  \<^verbatim>\<open>df.iloc[0]\<close> is a series of one dtype: when every column is \<^verbatim>\<open>int64\<close> or \<^verbatim>\<open>float64\<close>
  and one of them is \<^verbatim>\<open>float64\<close>, the ints of the row become floats; otherwise the
  cells stay as they are.
\<close>

definition column_dtypes :: "dataframe \<Rightarrow> dtype list" where
  "column_dtypes df =
     map (\<lambda>c. case map_of (zip (columns df) (dtypes df)) c of Some t \<Rightarrow> t | None \<Rightarrow> Object)
       (columns df)"

definition upcasts_to_float :: "dataframe \<Rightarrow> bool" where
  "upcasts_to_float df =
     (list_all (\<lambda>t. t = Int64 \<or> t = Float64) (column_dtypes df) \<and>
      list_ex (\<lambda>t. t = Float64) (column_dtypes df))"

fun to_float :: "pyval \<Rightarrow> pyval" where
  "to_float (PInt i) = PFloatOfInt i"
| "to_float v = v"

text \<open>\<^verbatim>\<open>df.iloc[0].to_dict()\<close>.\<close>

definition iloc0_to_dict :: "dataframe \<Rightarrow> py_error + pyval" where
  "iloc0_to_dict df =
     (case rows df of
        [] \<Rightarrow> Inl IndexError
      | r # _ \<Rightarrow>
          Inr (PDict (map (\<lambda>c. (c, if upcasts_to_float df then to_float (cell (columns df) r c)
                                     else cell (columns df) r c))
                        (columns df))))"

section \<open>The record locator\<close>

text \<open>The \<^verbatim>\<open>data: Any\<close> of the locator: a \<^verbatim>\<open>DataFrame\<close> or a parsed JSON value.\<close>

datatype pydata = Frame dataframe | Val pyval

text \<open>
  \<^verbatim>\<open>str(inv.get('id', inv.get('invoice_id', '')))\<close>, the expression that both
  \<^verbatim>\<open>get_invoice_ids\<close> and \<^verbatim>\<open>get_invoice_data\<close> evaluate on each record of a hierarchical
  source. Only a dict has \<^verbatim>\<open>get\<close>.
\<close>

fun resolved_id :: "(pyval \<Rightarrow> string) \<Rightarrow> pyval \<Rightarrow> py_error + string" where
  "resolved_id rp (PDict kvs) =
     Inr (py_str rp (dict_get kvs ''id'' (dict_get kvs ''invoice_id'' (PStr ''''))))"
| "resolved_id rp v = Inl AttributeError"

fun isinstance_list :: "pyval \<Rightarrow> bool" where
  "isinstance_list (PList xs) = True"
| "isinstance_list v = False"

text \<open>
  The list that a comprehension of strings returns, as a list of values: the listing of
  a frame can hold a value that is not a string (a missing value that is kept).
\<close>

definition str_list :: "py_error + string list \<Rightarrow> py_error + pyval list" where
  "str_list r = (case r of Inl e \<Rightarrow> Inl e | Inr ids \<Rightarrow> Inr (map PStr ids))"

text \<open>
  \<^verbatim>\<open>get_invoice_ids\<close>. The test \<^verbatim>\<open>elif isinstance(data, list)\<close> stands inside the
  \<^verbatim>\<open>isinstance(data, dict)\<close> branch of the source, as here.
\<close>

fun get_invoice_ids :: "(pyval \<Rightarrow> string) \<Rightarrow> pydata \<Rightarrow> py_error + pyval list" where
  "get_invoice_ids rp (Frame df) =
     (if ''invoice_id'' \<in> set (columns df) then
        (case getitem df ''invoice_id'' of
           Inl e \<Rightarrow> Inl e | Inr col \<Rightarrow> Inr (astype_str (astype_keeps_missing df) rp col))
      else if ''id'' \<in> set (columns df) then
        (case getitem df ''id'' of
           Inl e \<Rightarrow> Inl e | Inr col \<Rightarrow> Inr (astype_str (astype_keeps_missing df) rp col))
      else Inr [])"
| "get_invoice_ids rp (Val (PDict d)) =
     (if ''invoices'' \<in> fst ` set d then
        (case py_iter (dict_get d ''invoices'' PNone) of
           Inl e \<Rightarrow> Inl e
         | Inr invs \<Rightarrow> str_list (comprehension (resolved_id rp) invs))
      else if isinstance_list (PDict d) then
        (case py_iter (PDict d) of
           Inl e \<Rightarrow> Inl e
         | Inr items \<Rightarrow> str_list (comprehension (resolved_id rp) items))
      else Inr [])"
| "get_invoice_ids rp (Val v) = Inr []"

text \<open>
  The loop \<^verbatim>\<open>for inv in ...: if str(...) == invoice_id: return inv\<close>, followed by the
  final \<^verbatim>\<open>return {}\<close>.
\<close>

fun scan :: "(pyval \<Rightarrow> string) \<Rightarrow> pyval list \<Rightarrow> string \<Rightarrow> py_error + pyval" where
  "scan rp [] invoice_id = Inr (PDict [])"
| "scan rp (item # items) invoice_id =
     (case resolved_id rp item of
        Inl e \<Rightarrow> Inl e
      | Inr i \<Rightarrow> if i = invoice_id then Inr item else scan rp items invoice_id)"

text \<open>\<^verbatim>\<open>get_invoice_data\<close>; \<open>Inr (PDict [])\<close> is its \<^verbatim>\<open>return {}\<close>.\<close>

fun get_invoice_data :: "(pyval \<Rightarrow> string) \<Rightarrow> pydata \<Rightarrow> string \<Rightarrow> py_error + pyval" where
  "get_invoice_data rp (Frame df) invoice_id =
     (case (if ''invoice_id'' \<in> set (columns df) then getitem df ''invoice_id''
            else getitem df ''id'') of
        Inl e \<Rightarrow> Inl e
      | Inr col \<Rightarrow>
          (let row = getitem_mask df
                       (series_eq (astype_str (astype_keeps_missing df) rp col) invoice_id)
           in if \<not> empty_frame row then iloc0_to_dict row else Inr (PDict [])))"
| "get_invoice_data rp (Val (PDict d)) invoice_id =
     (if ''invoices'' \<in> fst ` set d then
        (case py_iter (dict_get d ''invoices'' PNone) of
           Inl e \<Rightarrow> Inl e
         | Inr invs \<Rightarrow> scan rp invs invoice_id)
      else Inr (PDict []))"
| "get_invoice_data rp (Val (PList items)) invoice_id = scan rp items invoice_id"
| "get_invoice_data rp (Val v) invoice_id = Inr (PDict [])"

text \<open>
  Lines 299 to 303 of \<^verbatim>\<open>run\<close>: the caller looks the chosen identifier up and tests the
  result with \<^verbatim>\<open>if not invoice_data\<close> only.
\<close>

datatype lookup_outcome = ReportNotFound | Proceed pyval

definition run_lookup :: "(pyval \<Rightarrow> string) \<Rightarrow> pydata \<Rightarrow> string \<Rightarrow> py_error + lookup_outcome" where
  "run_lookup rp data selected_invoice_id =
     (case get_invoice_data rp data selected_invoice_id of
        Inl e \<Rightarrow> Inl e
      | Inr invoice_data \<Rightarrow>
          Inr (if \<not> truthy invoice_data then ReportNotFound else Proceed invoice_data))"

text \<open>
  The records of a hierarchical source, for stating properties of it: the items of
  \<^verbatim>\<open>data['invoices']\<close> for a dict that has the key, the items of a bare list.
\<close>

fun hierarchical_records :: "pydata \<Rightarrow> pyval list option" where
  "hierarchical_records (Val (PDict d)) =
     (if ''invoices'' \<in> fst ` set d then
        (case py_iter (dict_get d ''invoices'' PNone) of
           Inl e \<Rightarrow> None | Inr invs \<Rightarrow> Some invs)
      else None)"
| "hierarchical_records (Val (PList items)) = Some items"
| "hierarchical_records src = None"

section \<open>The font resolver\<close>

text \<open>
  What \<^verbatim>\<open>setup_fonts\<close> reads of its platform: the result of \<^verbatim>\<open>platform.system()\<close> (or the
  exception it raises), \<^verbatim>\<open>os.path.exists\<close>, and the exception, if any, that
  \<^verbatim>\<open>pdfmetrics.registerFont(TTFont('CustomFont', path))\<close> raises for a path. The font
  registry maps a font name to the file registered under it.
\<close>

record platform_env =
  platform_system :: "py_error + string"
  path_exists :: "string \<Rightarrow> bool"
  register_raises :: "string \<Rightarrow> py_error option"

type_synonym font_registry = "string \<rightharpoonup> string"

definition font_paths :: "string \<Rightarrow> string list" where
  "font_paths system =
     (if system = ''Windows'' then
        [''C:/Windows/Fonts/arial.ttf'',
         ''C:/Windows/Fonts/calibri.ttf'',
         ''C:/Windows/Fonts/tahoma.ttf'']
      else
        [''/System/Library/Fonts/Arial.ttf'',
         ''/usr/share/fonts/truetype/dejavu/DejaVuSans.ttf''])"

text \<open>
  The loop over \<^verbatim>\<open>font_paths\<close>: \<open>Some\<close> is its \<^verbatim>\<open>return\<close> with \<^verbatim>\<open>self.font_name\<close> set and
  the font registered, \<open>None\<close> is the loop running to its end. The inner
  \<^verbatim>\<open>except: continue\<close> is the branch \<open>Some e\<close>.
\<close>

fun try_font_paths ::
  "platform_env \<Rightarrow> string list \<Rightarrow> font_registry \<Rightarrow> (string \<times> font_registry) option" where
  "try_font_paths env [] reg = None"
| "try_font_paths env (font_path # ps) reg =
     (if path_exists env font_path then
        (case register_raises env font_path of
           None \<Rightarrow> Some (''CustomFont'', reg(''CustomFont'' \<mapsto> font_path))
         | Some e \<Rightarrow> try_font_paths env ps reg)
      else try_font_paths env ps reg)"

text \<open>The body of the outer \<^verbatim>\<open>try\<close>: it raises what \<^verbatim>\<open>platform.system()\<close> raises.\<close>

definition setup_fonts_body ::
  "platform_env \<Rightarrow> font_registry \<Rightarrow> py_error + (string \<times> font_registry)" where
  "setup_fonts_body env reg =
     (case platform_system env of
        Inl e \<Rightarrow> Inl e
      | Inr system \<Rightarrow>
          (case try_font_paths env (font_paths system) reg of
             Some done \<Rightarrow> Inr done
           | None \<Rightarrow> Inr (''Helvetica'', reg)))"

text \<open>
  \<^verbatim>\<open>setup_fonts\<close>: the body under \<^verbatim>\<open>try\<close>, with the outer bare \<^verbatim>\<open>except\<close>. The result is
  \<^verbatim>\<open>self.font_name\<close> and the registry; \<open>Inl\<close> would be an exception leaving the method.
\<close>

definition setup_fonts ::
  "platform_env \<Rightarrow> font_registry \<Rightarrow> py_error + (string \<times> font_registry)" where
  "setup_fonts env reg =
     (case setup_fonts_body env reg of
        Inl e \<Rightarrow> Inr (''Helvetica'', reg)
      | Inr done \<Rightarrow> Inr done)"

section \<open>The document composer and renderer\<close>

text \<open>
  The classes of the layout library are data here: a \<^verbatim>\<open>ParagraphStyle\<close> is the record of
  the arguments \<^verbatim>\<open>generate_pdf\<close> passes (the parent by the name of the sample style, an
  argument not passed as \<open>None\<close>), a flowable is the constructor with its arguments, a
  \<^verbatim>\<open>TableStyle\<close> the list of its commands. The constructor \<^verbatim>\<open>Paragraph\<close> reads its text
  and can raise (on a value that is not a string, on markup that is not well formed):
  the exception it raises for a text, if any, is the parameter \<open>para\<close> of the composer.
  What the library does with a story is the engine of \<^verbatim>\<open>doc.build\<close> below.
\<close>

record paragraph_style =
  name :: string
  parent :: string
  fontName :: string
  fontSize :: nat
  spaceAfter :: "nat option"
  alignment :: "nat option"
  textColor :: "string option"

datatype command_value = CStr string | CNat nat

type_synonym table_command = "string \<times> (int \<times> int) \<times> (int \<times> int) \<times> command_value"

datatype flowable =
    Paragraph pyval paragraph_style
  | Spacer nat nat
  | Table "pyval list list" "nat list" "table_command list"

definition title_style :: "string \<Rightarrow> paragraph_style" where
  "title_style font_name =
     \<lparr>name = ''CustomTitle'', parent = ''Heading1'', fontName = font_name, fontSize = 24,
      spaceAfter = Some 30, alignment = Some 1, textColor = Some ''darkblue''\<rparr>"

definition heading_style :: "string \<Rightarrow> paragraph_style" where
  "heading_style font_name =
     \<lparr>name = ''CustomHeading'', parent = ''Heading2'', fontName = font_name, fontSize = 16,
      spaceAfter = Some 12, alignment = None, textColor = Some ''darkblue''\<rparr>"

definition normal_style :: "string \<Rightarrow> paragraph_style" where
  "normal_style font_name =
     \<lparr>name = ''CustomNormal'', parent = ''Normal'', fontName = font_name, fontSize = 12,
      spaceAfter = Some 6, alignment = None, textColor = None\<rparr>"

definition amount_style :: "string \<Rightarrow> paragraph_style" where
  "amount_style font_name =
     \<lparr>name = ''AmountStyle'', parent = ''Heading2'', fontName = font_name, fontSize = 20,
      spaceAfter = Some 20, alignment = Some 1, textColor = Some ''darkred''\<rparr>"

definition info_table_style :: "string \<Rightarrow> table_command list" where
  "info_table_style font_name =
     [(''ALIGN'', (0, 0), (- 1, - 1), CStr ''LEFT''),
      (''FONTNAME'', (0, 0), (- 1, - 1), CStr font_name),
      (''FONTSIZE'', (0, 0), (- 1, - 1), CNat 12),
      (''BOTTOMPADDING'', (0, 0), (- 1, - 1), CNat 6)]"

text \<open>
  The fixed texts of the document, in UTF-8. In Latin letters they read: SCHET-FAKTURA
  (invoice); the numero sign and a space; Klient: (customer); Data: (date); Nomer
  scheta: (invoice number); Summa: (amount) and a space; a space and the rouble sign;
  Opisanie uslug: (description of services); Spasibo za vash zakaz! (thank you for your
  order); Data sozdaniya: (created on) and a space.
\<close>

definition text_invoice :: string where
  "text_invoice =
     [CHR 0xD0, CHR 0xA1, CHR 0xD0, CHR 0xA7, CHR 0xD0, CHR 0x95, CHR 0xD0, CHR 0xA2, CHR 0x2D,
      CHR 0xD0, CHR 0xA4, CHR 0xD0, CHR 0x90, CHR 0xD0, CHR 0x9A, CHR 0xD0, CHR 0xA2, CHR 0xD0,
      CHR 0xA3, CHR 0xD0, CHR 0xA0, CHR 0xD0, CHR 0x90]"

definition text_numero :: string where
  "text_numero = [CHR 0xE2, CHR 0x84, CHR 0x96, CHR 0x20]"

definition text_customer :: string where
  "text_customer =
     [CHR 0xD0, CHR 0x9A, CHR 0xD0, CHR 0xBB, CHR 0xD0, CHR 0xB8, CHR 0xD0, CHR 0xB5, CHR 0xD0,
      CHR 0xBD, CHR 0xD1, CHR 0x82, CHR 0x3A]"

definition text_date :: string where
  "text_date = [CHR 0xD0, CHR 0x94, CHR 0xD0, CHR 0xB0, CHR 0xD1, CHR 0x82, CHR 0xD0, CHR 0xB0, CHR 0x3A]"

definition text_invoice_number :: string where
  "text_invoice_number =
     [CHR 0xD0, CHR 0x9D, CHR 0xD0, CHR 0xBE, CHR 0xD0, CHR 0xBC, CHR 0xD0, CHR 0xB5, CHR 0xD1,
      CHR 0x80, CHR 0x20, CHR 0xD1, CHR 0x81, CHR 0xD1, CHR 0x87, CHR 0xD0, CHR 0xB5, CHR 0xD1,
      CHR 0x82, CHR 0xD0, CHR 0xB0, CHR 0x3A]"

definition text_amount :: string where
  "text_amount =
     [CHR 0xD0, CHR 0xA1, CHR 0xD1, CHR 0x83, CHR 0xD0, CHR 0xBC, CHR 0xD0, CHR 0xBC, CHR 0xD0,
      CHR 0xB0, CHR 0x3A, CHR 0x20]"

definition text_rouble :: string where
  "text_rouble = [CHR 0x20, CHR 0xE2, CHR 0x82, CHR 0xBD]"

definition text_services :: string where
  "text_services =
     [CHR 0xD0, CHR 0x9E, CHR 0xD0, CHR 0xBF, CHR 0xD0, CHR 0xB8, CHR 0xD1, CHR 0x81, CHR 0xD0,
      CHR 0xB0, CHR 0xD0, CHR 0xBD, CHR 0xD0, CHR 0xB8, CHR 0xD0, CHR 0xB5, CHR 0x20, CHR 0xD1,
      CHR 0x83, CHR 0xD1, CHR 0x81, CHR 0xD0, CHR 0xBB, CHR 0xD1, CHR 0x83, CHR 0xD0, CHR 0xB3,
      CHR 0x3A]"

definition text_thanks :: string where
  "text_thanks =
     [CHR 0xD0, CHR 0xA1, CHR 0xD0, CHR 0xBF, CHR 0xD0, CHR 0xB0, CHR 0xD1, CHR 0x81, CHR 0xD0,
      CHR 0xB8, CHR 0xD0, CHR 0xB1, CHR 0xD0, CHR 0xBE, CHR 0x20, CHR 0xD0, CHR 0xB7, CHR 0xD0,
      CHR 0xB0, CHR 0x20, CHR 0xD0, CHR 0xB2, CHR 0xD0, CHR 0xB0, CHR 0xD1, CHR 0x88, CHR 0x20,
      CHR 0xD0, CHR 0xB7, CHR 0xD0, CHR 0xB0, CHR 0xD0, CHR 0xBA, CHR 0xD0, CHR 0xB0, CHR 0xD0,
      CHR 0xB7, CHR 0x21]"

definition text_created :: string where
  "text_created =
     [CHR 0xD0, CHR 0x94, CHR 0xD0, CHR 0xB0, CHR 0xD1, CHR 0x82, CHR 0xD0, CHR 0xB0, CHR 0x20,
      CHR 0xD1, CHR 0x81, CHR 0xD0, CHR 0xBE, CHR 0xD0, CHR 0xB7, CHR 0xD0, CHR 0xB4, CHR 0xD0,
      CHR 0xB0, CHR 0xD0, CHR 0xBD, CHR 0xD0, CHR 0xB8, CHR 0xD1, CHR 0x8F, CHR 0x3A, CHR 0x20]"

text \<open>\<^verbatim>\<open>Paragraph(text, style)\<close>: the flowable, or the exception of the constructor.\<close>

definition new_paragraph ::
  "(pyval \<Rightarrow> py_error option) \<Rightarrow> pyval \<Rightarrow> paragraph_style \<Rightarrow> py_error + flowable" where
  "new_paragraph para text st =
     (case para text of Some e \<Rightarrow> Inl e | None \<Rightarrow> Inr (Paragraph text st))"

text \<open>
  The list \<^verbatim>\<open>story\<close> that \<^verbatim>\<open>generate_pdf\<close> builds from \<^verbatim>\<open>data\<close> (the items of the dict) and
  \<^verbatim>\<open>self.font_name\<close>, one element per \<^verbatim>\<open>story.append\<close>, in order; the first constructor
  that raises ends it. A value inside an f-string is formatted by \<^verbatim>\<open>str\<close>; the description
  and the table cells are passed as they are.
\<close>

definition story ::
  "(pyval \<Rightarrow> py_error option) \<Rightarrow> (pyval \<Rightarrow> string) \<Rightarrow> string \<Rightarrow> (string \<times> pyval) list
     \<Rightarrow> py_error + flowable list" where
  "story para rp font_name data =
     comprehension (\<lambda>appended. appended)
       [new_paragraph para (PStr text_invoice) (title_style font_name),
        new_paragraph para
          (PStr (text_numero @ py_str rp (dict_get data ''invoice_id'' (PStr ''N/A''))))
          (normal_style font_name),
        Inr (Spacer 1 20),
        Inr (Table
               [[PStr text_customer, dict_get data ''customer_name'' (PStr ''N/A'')],
                [PStr text_date, dict_get data ''date'' (PStr ''N/A'')],
                [PStr text_invoice_number, dict_get data ''invoice_id'' (PStr ''N/A'')]]
               [100, 200] (info_table_style font_name)),
        Inr (Spacer 1 20),
        new_paragraph para
          (PStr (text_amount @ py_str rp (dict_get data ''amount'' (PStr ''N/A'')) @ text_rouble))
          (amount_style font_name),
        new_paragraph para (PStr text_services) (heading_style font_name),
        new_paragraph para (dict_get data ''description'' (PStr ''N/A'')) (normal_style font_name),
        Inr (Spacer 1 30),
        new_paragraph para (PStr text_thanks) (normal_style font_name),
        new_paragraph para
          (PStr (text_created @ py_str rp (dict_get data ''date'' (PStr ''N/A''))))
          (normal_style font_name)]"

text \<open>The texts of the seven paragraphs of the story, in order.\<close>

definition paragraph_texts :: "(pyval \<Rightarrow> string) \<Rightarrow> (string \<times> pyval) list \<Rightarrow> pyval list" where
  "paragraph_texts rp data =
     [PStr text_invoice,
      PStr (text_numero @ py_str rp (dict_get data ''invoice_id'' (PStr ''N/A''))),
      PStr (text_amount @ py_str rp (dict_get data ''amount'' (PStr ''N/A'')) @ text_rouble),
      PStr text_services,
      dict_get data ''description'' (PStr ''N/A''),
      PStr text_thanks,
      PStr (text_created @ py_str rp (dict_get data ''date'' (PStr ''N/A'')))]"

text \<open>
  A \<^verbatim>\<open>Paragraph\<close> constructor that takes every string and raises \<^verbatim>\<open>AttributeError\<close> for
  any other value.
\<close>

fun strings_only :: "pyval \<Rightarrow> py_error option" where
  "strings_only (PStr s) = None"
| "strings_only v = Some AttributeError"

text \<open>
  The kinds of block the specification counts: the title is the paragraph in the style
  \<^verbatim>\<open>CustomTitle\<close>, the emphasized line the paragraph in the style \<^verbatim>\<open>AmountStyle\<close>, the
  key-value table the \<^verbatim>\<open>Table\<close>.
\<close>

fun is_title :: "flowable \<Rightarrow> bool" where
  "is_title (Paragraph t st) = (name st = ''CustomTitle'')"
| "is_title f = False"

fun is_emphasized_line :: "flowable \<Rightarrow> bool" where
  "is_emphasized_line (Paragraph t st) = (name st = ''AmountStyle'')"
| "is_emphasized_line f = False"

fun is_key_value_table :: "flowable \<Rightarrow> bool" where
  "is_key_value_table (Table cells widths cmds) = True"
| "is_key_value_table f = False"

fun table_rows :: "flowable \<Rightarrow> pyval list list" where
  "table_rows (Table cells widths cmds) = cells"
| "table_rows f = []"

text \<open>
  \<^verbatim>\<open>SimpleDocTemplate(str(output_path), pagesize=A4, ...)\<close>, with the four margins in
  millimetres.
\<close>

record doc_template =
  filename :: string
  pagesize :: string
  rightMargin :: nat
  leftMargin :: nat
  topMargin :: nat
  bottomMargin :: nat

definition simple_doc_template :: "string \<Rightarrow> doc_template" where
  "simple_doc_template output_path =
     \<lparr>filename = output_path, pagesize = ''A4'', rightMargin = 20, leftMargin = 20,
      topMargin = 20, bottomMargin = 20\<rparr>"

text \<open>
  The files, by path, and the layout engine behind \<^verbatim>\<open>doc.build(story)\<close>: from the
  template, the story and the files it gives the exception it raises, if any, and the
  files as it leaves them.
\<close>

type_synonym files = "string \<rightharpoonup> string"

type_synonym engine = "doc_template \<Rightarrow> flowable list \<Rightarrow> files \<Rightarrow> py_error option \<times> files"

text \<open>
  \<^verbatim>\<open>generate_pdf\<close>: \<open>Inl e\<close> is the exception that leaves it through the \<^verbatim>\<open>raise\<close> of its
  \<^verbatim>\<open>except\<close> clause, \<open>Inr ()\<close> its return. An exception of a constructor of the story
  leaves it before \<^verbatim>\<open>doc.build\<close> is called. The two \<^verbatim>\<open>print\<close> calls are left out.
\<close>

definition generate_pdf ::
  "(pyval \<Rightarrow> py_error option) \<Rightarrow> (pyval \<Rightarrow> string) \<Rightarrow> engine \<Rightarrow> string
     \<Rightarrow> (string \<times> pyval) list \<Rightarrow> string \<Rightarrow> files \<Rightarrow> (py_error + unit) \<times> files" where
  "generate_pdf para rp build font_name data output_path fs =
     (let doc = simple_doc_template output_path
      in case story para rp font_name data of
           Inl e \<Rightarrow> (Inl e, fs)
         | Inr flowables \<Rightarrow>
             (case build doc flowables fs of
                (None, fs') \<Rightarrow> (Inr (), fs')
              | (Some e, fs') \<Rightarrow> (Inl e, fs')))"

text \<open>
  Two engines that fail. The first cannot open the destination and leaves the files as
  they are. The second has opened the destination for writing when it fails: it leaves
  an empty file at the path.
\<close>

definition refusing_engine :: engine where
  "refusing_engine doc flowables fs = (Some (OtherError ''permission''), fs)"

definition truncating_engine :: engine where
  "truncating_engine doc flowables fs = (Some (OtherError ''layout''), fs(filename doc \<mapsto> []))"

section \<open>Lemmas on the loops of the locator\<close>

lemma comprehension_nth:
  "comprehension f xs = Inr ys \<Longrightarrow> i < length xs \<Longrightarrow> f (xs ! i) = Inr (ys ! i)"
proof (induction xs arbitrary: ys i)
  case Nil
  then show ?case by simp
next
  case (Cons x xs)
  then show ?case
    by (cases i) (auto split: sum.splits)
qed

lemma comprehension_length:
  "comprehension f xs = Inr ys \<Longrightarrow> length ys = length xs"
  by (induction xs arbitrary: ys) (auto split: sum.splits)

lemma comprehension_scan:
  "comprehension (resolved_id rp) xs = Inr ids \<Longrightarrow> s \<in> set ids \<Longrightarrow>
     \<exists>item. scan rp xs s = Inr item \<and> item \<in> set xs \<and> resolved_id rp item = Inr s \<and>
            find (\<lambda>x. resolved_id rp x = Inr s) xs = Some item"
proof (induction xs arbitrary: ids)
  case Nil
  then show ?case by simp
next
  case (Cons x xs)
  then show ?case
    by (auto split: sum.splits)
qed

lemma scan_result:
  "scan rp xs s = Inr item \<Longrightarrow>
     item = PDict [] \<or> (item \<in> set xs \<and> resolved_id rp item = Inr s)"
  by (induction xs) (auto split: sum.splits if_splits)

lemma scan_skips_non_matching:
  "\<forall>x\<in>set pre. \<exists>i. resolved_id rp x = Inr i \<and> i \<noteq> s \<Longrightarrow>
     scan rp (pre @ ys) s = scan rp ys s"
  by (induction pre) auto

lemma resolved_id_is_dict:
  "resolved_id rp item = Inr s \<Longrightarrow> \<exists>kvs. item = PDict kvs"
  by (cases item) auto

lemma mask_is_filter:
  "map snd (filter fst (zip (map P rs) rs)) = filter P rs"
  by (induction rs) auto

lemma frame_lookup_finds_row:
  assumes "c \<in> set (columns df)"
    and "PStr s \<in> set (astype_str k rp (map (\<lambda>r. cell (columns df) r c) (rows df)))"
  shows "\<exists>kvs.
           (let row = getitem_mask df
                        (series_eq
                           (astype_str k rp (map (\<lambda>r. cell (columns df) r c) (rows df))) s)
            in if \<not> empty_frame row then iloc0_to_dict row else Inr (PDict []))
           = Inr (PDict kvs) \<and> kvs \<noteq> []"
proof -
  define P where "P = (\<lambda>r. (if k \<and> is_missing (cell (columns df) r c) then PFloat ''nan''
                   else PStr (py_str rp (cell (columns df) r c))) = PStr s)"
  have m: "series_eq (astype_str k rp (map (\<lambda>r. cell (columns df) r c) (rows df))) s
             = map P (rows df)"
    by (simp add: astype_str_def series_eq_def P_def)
  have rs: "rows (getitem_mask df (map P (rows df))) = filter P (rows df)"
    by (simp add: getitem_mask_def mask_is_filter)
  have cs: "columns (getitem_mask df (map P (rows df))) = columns df"
    by (simp add: getitem_mask_def)
  from assms(2) obtain r where "r \<in> set (rows df)" and "P r"
    by (auto simp: astype_str_def P_def)
  then have ne: "filter P (rows df) \<noteq> []"
    unfolding filter_empty_conv by blast
  from assms(1) have cne: "columns df \<noteq> []" by auto
  show ?thesis
    using ne cne unfolding m
    by (auto simp: Let_def empty_frame_def iloc0_to_dict_def rs cs split: list.splits)
qed

lemma try_font_paths_find:
  "try_font_paths env ps reg =
     map_option (\<lambda>p. (''CustomFont'', reg(''CustomFont'' \<mapsto> p)))
       (find (\<lambda>p. path_exists env p \<and> register_raises env p = None) ps)"
  by (induction ps) (auto split: option.splits)

section \<open>Lemmas on the story\<close>

text \<open>The eleven elements of the story when no constructor raises.\<close>

lemma story_accepted:
  assumes "list_all (\<lambda>t. para t = None) (paragraph_texts rp data)"
  shows "story para rp fn data =
     Inr [Paragraph (PStr text_invoice) (title_style fn),
          Paragraph (PStr (text_numero @ py_str rp (dict_get data ''invoice_id'' (PStr ''N/A''))))
            (normal_style fn),
          Spacer 1 20,
          Table
            [[PStr text_customer, dict_get data ''customer_name'' (PStr ''N/A'')],
             [PStr text_date, dict_get data ''date'' (PStr ''N/A'')],
             [PStr text_invoice_number, dict_get data ''invoice_id'' (PStr ''N/A'')]]
            [100, 200] (info_table_style fn),
          Spacer 1 20,
          Paragraph
            (PStr (text_amount @ py_str rp (dict_get data ''amount'' (PStr ''N/A'')) @ text_rouble))
            (amount_style fn),
          Paragraph (PStr text_services) (heading_style fn),
          Paragraph (dict_get data ''description'' (PStr ''N/A'')) (normal_style fn),
          Spacer 1 30,
          Paragraph (PStr text_thanks) (normal_style fn),
          Paragraph (PStr (text_created @ py_str rp (dict_get data ''date'' (PStr ''N/A''))))
            (normal_style fn)]"
  using assms by (simp add: story_def paragraph_texts_def new_paragraph_def)

lemma story_length:
  "story para rp fn data = Inr s \<Longrightarrow> length s = 11"
  unfolding story_def by (drule comprehension_length) simp

lemma story_raises_what_a_constructor_raises:
  "story para rp fn data = Inl e \<Longrightarrow> \<exists>t\<in>set (paragraph_texts rp data). para t = Some e"
  by (auto simp: story_def paragraph_texts_def new_paragraph_def split: option.splits)

section \<open>The locator on sources that hold no identifier column or are bare lists\<close>

text \<open>
  C1. The claim: for every tabular source that has neither the column \<^verbatim>\<open>invoice_id\<close> nor
  the column \<^verbatim>\<open>id\<close>, \<^verbatim>\<open>get_record\<close> returns NotFound for every identifier and raises
  nothing. The code: \<^verbatim>\<open>get_invoice_data\<close> tests for \<^verbatim>\<open>invoice_id\<close> only and reads
  \<^verbatim>\<open>data['id']\<close> in its \<^verbatim>\<open>else\<close> branch without a test, so on every such frame and for
  every identifier it raises \<^verbatim>\<open>KeyError('id')\<close>; \<^verbatim>\<open>get_invoice_ids\<close>, which tests for both
  columns, returns the empty list on the same frame.
\<close>

theorem frame_without_identifier_columns_raises:
  "''invoice_id'' \<notin> set (columns df) \<Longrightarrow> ''id'' \<notin> set (columns df) \<Longrightarrow>
     get_invoice_data rp (Frame df) invoice_id = Inl (KeyError ''id'') \<and>
     get_invoice_ids rp (Frame df) = Inr []"
  by (simp add: getitem_def)

theorem frame_without_identifier_columns_raises_witness:
  "\<forall>rp k.
     get_invoice_data rp
       (Frame \<lparr>columns = [''name''], rows = [[PStr ''Acme'']], dtypes = [Object],
               astype_keeps_missing = k\<rparr>) ''INV-1''
       = Inl (KeyError ''id'') \<and>
     get_invoice_ids rp
       (Frame \<lparr>columns = [''name''], rows = [[PStr ''Acme'']], dtypes = [Object],
               astype_keeps_missing = k\<rparr>) = Inr []"
  using frame_without_identifier_columns_raises
    [of "\<lparr>columns = [''name''], rows = [[PStr ''Acme'']], dtypes = [Object],
           astype_keeps_missing = _\<rparr>" _ "''INV-1''"]
  by simp

text \<open>
  C2. The claim: for a source that is a bare sequence of records, \<^verbatim>\<open>list_identifiers\<close>
  returns one entry per record, in source order, and not the empty sequence. The code:
  the branch of \<^verbatim>\<open>get_invoice_ids\<close> for a list is nested under \<^verbatim>\<open>isinstance(data, dict)\<close>
  and is never reached, so every bare list, whatever its records, is listed as the empty
  sequence.
\<close>

theorem bare_list_is_listed_empty:
  "get_invoice_ids rp (Val (PList items)) = Inr []"
  by simp

text \<open>
  C3. The claim: \<^verbatim>\<open>list_identifiers\<close> and \<^verbatim>\<open>get_record\<close> dispatch on the shape of the
  source alike: an empty listing means that \<^verbatim>\<open>get_record\<close> returns NotFound, and a shape
  from which \<^verbatim>\<open>get_record\<close> returns a record has a non-empty listing. The code: on the
  bare list \<^verbatim>\<open>[{"id": "X1"}]\<close> the listing is empty and the lookup of \<^verbatim>\<open>"X1"\<close> returns
  the record.
\<close>

theorem bare_list_lookup_finds_what_listing_omits:
  "get_invoice_ids rp (Val (PList [PDict [(''id'', PStr ''X1'')]])) = Inr [] \<and>
   get_invoice_data rp (Val (PList [PDict [(''id'', PStr ''X1'')]])) ''X1''
     = Inr (PDict [(''id'', PStr ''X1'')])"
  by (simp add: dict_get_def)

section \<open>The identifier of a record of a hierarchical source\<close>

text \<open>
  C4. The claim: for every record of a hierarchical source that carries both
  \<^verbatim>\<open>invoice_id\<close> and \<^verbatim>\<open>id\<close>, the identifier that \<^verbatim>\<open>list_identifiers\<close> and \<^verbatim>\<open>get_record\<close>
  use is the value of \<^verbatim>\<open>invoice_id\<close>, and \<^verbatim>\<open>id\<close> is read only when \<^verbatim>\<open>invoice_id\<close> is absent.
  The code: every hierarchical site evaluates
  \<^verbatim>\<open>str(inv.get('id', inv.get('invoice_id', '')))\<close>, which reads \<^verbatim>\<open>id\<close> first. On
  \<^verbatim>\<open>{"invoices": [{"invoice_id": "A", "id": "B"}]}\<close> the record is listed as \<^verbatim>\<open>B\<close>, is not
  found under \<^verbatim>\<open>A\<close> and is found under \<^verbatim>\<open>B\<close>, while the document composed from it shows
  the number \<^verbatim>\<open>A\<close>, which \<^verbatim>\<open>generate_pdf\<close> reads from \<^verbatim>\<open>invoice_id\<close>.
\<close>

theorem record_with_both_fields_is_known_by_id:
  "\<forall>rp fn.
     get_invoice_ids rp
       (Val (PDict [(''invoices'', PList [PDict [(''invoice_id'', PStr ''A''), (''id'', PStr ''B'')]])]))
       = Inr [PStr ''B''] \<and>
     get_invoice_data rp
       (Val (PDict [(''invoices'', PList [PDict [(''invoice_id'', PStr ''A''), (''id'', PStr ''B'')]])]))
       ''A'' = Inr (PDict []) \<and>
     get_invoice_data rp
       (Val (PDict [(''invoices'', PList [PDict [(''invoice_id'', PStr ''A''), (''id'', PStr ''B'')]])]))
       ''B'' = Inr (PDict [(''invoice_id'', PStr ''A''), (''id'', PStr ''B'')]) \<and>
     map_sum (\<lambda>e. e) (\<lambda>s. s ! 1)
       (story strings_only rp fn [(''invoice_id'', PStr ''A''), (''id'', PStr ''B'')])
       = Inr (Paragraph (PStr (text_numero @ ''A'')) (normal_style fn))"
  by (simp add: dict_get_def str_list_def story_def new_paragraph_def)

text \<open>
  In general: in a source \<^verbatim>\<open>{"invoices": [...]}\<close>, the identifier of a record that holds
  the field \<^verbatim>\<open>id\<close> is the \<^verbatim>\<open>str\<close> of that field, whether or not it also holds
  \<^verbatim>\<open>invoice_id\<close>; the field \<^verbatim>\<open>invoice_id\<close> is read only when \<^verbatim>\<open>id\<close> is absent. This is the
  entry of the record in \<^verbatim>\<open>get_invoice_ids\<close>, at the position of the record, and the only
  identifier under which \<^verbatim>\<open>get_invoice_data\<close> returns the record.
\<close>

theorem hierarchical_identifier_is_id_before_invoice_id:
  assumes "get_invoice_ids rp (Val (PDict d)) = Inr ids"
    and "hierarchical_records (Val (PDict d)) = Some xs"
    and "i < length xs" and "xs ! i = PDict kvs"
  shows "(map_of kvs ''id'' = Some b \<longrightarrow>
            ids ! i = PStr (py_str rp b) \<and>
            (\<forall>s. get_invoice_data rp (Val (PDict d)) s = Inr (PDict kvs) \<longrightarrow> s = py_str rp b)) \<and>
         (map_of kvs ''id'' = None \<longrightarrow> map_of kvs ''invoice_id'' = Some a \<longrightarrow>
            ids ! i = PStr (py_str rp a) \<and>
            (\<forall>s. get_invoice_data rp (Val (PDict d)) s = Inr (PDict kvs) \<longrightarrow> s = py_str rp a))"
proof -
  from assms(2) have inv: "''invoices'' \<in> fst ` set d"
    and it: "py_iter (dict_get d ''invoices'' PNone) = Inr xs"
    by (auto split: if_splits sum.splits)
  from assms(1) inv it obtain ss where co: "comprehension (resolved_id rp) xs = Inr ss"
    and ids: "ids = map PStr ss"
    by (auto simp: str_list_def split: sum.splits)
  from comprehension_length [OF co] assms(3) have len: "i < length ss" by simp
  from comprehension_nth [OF co assms(3)] assms(4)
  have ri: "resolved_id rp (PDict kvs) = Inr (ss ! i)" by simp
  have nth: "ids ! i = PStr (ss ! i)" using ids len by simp
  have gd: "get_invoice_data rp (Val (PDict d)) s = scan rp xs s" for s
    using inv it by simp
  have found: "s = ss ! i"
    if "get_invoice_data rp (Val (PDict d)) s = Inr (PDict kvs)" "kvs \<noteq> []" for s
    using scan_result [of rp xs s "PDict kvs"] that ri gd by auto
  show ?thesis
  proof (intro conjI impI allI)
    assume "map_of kvs ''id'' = Some b"
    then show "ids ! i = PStr (py_str rp b)" using ri nth by (simp add: dict_get_def)
  next
    fix s assume a: "map_of kvs ''id'' = Some b"
      and g: "get_invoice_data rp (Val (PDict d)) s = Inr (PDict kvs)"
    from a have "kvs \<noteq> []" by auto
    from found [OF g this] ri a show "s = py_str rp b" by (simp add: dict_get_def)
  next
    assume "map_of kvs ''id'' = None" "map_of kvs ''invoice_id'' = Some a"
    then show "ids ! i = PStr (py_str rp a)" using ri nth by (simp add: dict_get_def)
  next
    fix s assume n: "map_of kvs ''id'' = None" and a: "map_of kvs ''invoice_id'' = Some a"
      and g: "get_invoice_data rp (Val (PDict d)) s = Inr (PDict kvs)"
    from a have "kvs \<noteq> []" by auto
    from found [OF g this] ri n a show "s = py_str rp a" by (simp add: dict_get_def)
  qed
qed

theorem hierarchical_identifier_is_id_before_invoice_id_witness:
  "\<forall>rp.
     get_invoice_ids rp
       (Val (PDict [(''invoices'', PList [PDict [(''invoice_id'', PStr ''A''), (''id'', PStr ''B'')]])]))
       = Inr [PStr ''B''] \<and>
     hierarchical_records
       (Val (PDict [(''invoices'', PList [PDict [(''invoice_id'', PStr ''A''), (''id'', PStr ''B'')]])]))
       = Some [PDict [(''invoice_id'', PStr ''A''), (''id'', PStr ''B'')]] \<and>
     (0::nat) < length [PDict [(''invoice_id'', PStr ''A''), (''id'', PStr ''B'')]] \<and>
     map_of [(''invoice_id'', PStr ''A''), (''id'', PStr ''B'')] ''id'' = Some (PStr ''B'') \<and>
     [PStr ''B''] ! 0 = PStr (py_str rp (PStr ''B'')) \<and>
     (\<forall>s. get_invoice_data rp
            (Val (PDict [(''invoices'', PList [PDict [(''invoice_id'', PStr ''A''), (''id'', PStr ''B'')]])])) s
            = Inr (PDict [(''invoice_id'', PStr ''A''), (''id'', PStr ''B'')]) \<longrightarrow> s = ''B'')"
proof
  fix rp
  let ?kvs = "[(''invoice_id'', PStr ''A''), (''id'', PStr ''B'')]"
  let ?d = "[(''invoices'', PList [PDict ?kvs])]"
  have 1: "get_invoice_ids rp (Val (PDict ?d)) = Inr [PStr ''B'']"
    by (simp add: dict_get_def str_list_def)
  have 2: "hierarchical_records (Val (PDict ?d)) = Some [PDict ?kvs]" by (simp add: dict_get_def)
  have 3: "(0::nat) < length [PDict ?kvs]" by simp
  have 4: "[PDict ?kvs] ! 0 = PDict ?kvs" by simp
  have 5: "map_of ?kvs ''id'' = Some (PStr ''B'')" by simp
  from hierarchical_identifier_is_id_before_invoice_id [OF 1 2 3 4, of "PStr ''B''"] 5 1 2 3
  show "get_invoice_ids rp (Val (PDict ?d)) = Inr [PStr ''B''] \<and>
     hierarchical_records (Val (PDict ?d)) = Some [PDict ?kvs] \<and>
     (0::nat) < length [PDict ?kvs] \<and>
     map_of ?kvs ''id'' = Some (PStr ''B'') \<and>
     [PStr ''B''] ! 0 = PStr (py_str rp (PStr ''B'')) \<and>
     (\<forall>s. get_invoice_data rp (Val (PDict ?d)) s = Inr (PDict ?kvs) \<longrightarrow> s = ''B'')"
    by simp
qed

section \<open>The composer\<close>

text \<open>
  C5, as the code has it: on the tabular source with the columns \<^verbatim>\<open>invoice_id\<close>,
  \<^verbatim>\<open>customer_name\<close>, \<^verbatim>\<open>date\<close>, \<^verbatim>\<open>amount\<close>, \<^verbatim>\<open>description\<close> and the row \<^verbatim>\<open>INV-1\<close>, \<^verbatim>\<open>Acme\<close>,
  \<^verbatim>\<open>2024-01-01\<close>, \<^verbatim>\<open>500\<close>, \<^verbatim>\<open>Consulting\<close>, the lookup of \<^verbatim>\<open>INV-1\<close> returns the record with
  those five values, and the story composed from it has exactly 11 elements, one per
  \<^verbatim>\<open>story.append\<close>: the nine blocks the specification lists, and the paragraph with the
  invoice number and the spacer that follow the title. This is so whenever the story is
  composed, and it is composed by a constructor that takes strings.
\<close>

theorem scenario_A_record_and_story:
  "get_invoice_data rp
     (Frame \<lparr>columns = [''invoice_id'', ''customer_name'', ''date'', ''amount'', ''description''],
             rows = [[PStr ''INV-1'', PStr ''Acme'', PStr ''2024-01-01'', PStr ''500'',
                      PStr ''Consulting'']],
             dtypes = [Object, Object, Object, Object, Object],
             astype_keeps_missing = k\<rparr>)
     ''INV-1''
   = Inr (PDict [(''invoice_id'', PStr ''INV-1''), (''customer_name'', PStr ''Acme''),
                 (''date'', PStr ''2024-01-01''), (''amount'', PStr ''500''),
                 (''description'', PStr ''Consulting'')]) \<and>
   (case story para rp font_name
           [(''invoice_id'', PStr ''INV-1''), (''customer_name'', PStr ''Acme''),
            (''date'', PStr ''2024-01-01''), (''amount'', PStr ''500''),
            (''description'', PStr ''Consulting'')] of
      Inl e \<Rightarrow> list_ex (\<lambda>t. para t = Some e)
                 (paragraph_texts rp
                    [(''invoice_id'', PStr ''INV-1''), (''customer_name'', PStr ''Acme''),
                     (''date'', PStr ''2024-01-01''), (''amount'', PStr ''500''),
                     (''description'', PStr ''Consulting'')])
    | Inr s \<Rightarrow> length s = 11) \<and>
   map_sum (\<lambda>e. e) length
     (story strings_only rp font_name
        [(''invoice_id'', PStr ''INV-1''), (''customer_name'', PStr ''Acme''),
         (''date'', PStr ''2024-01-01''), (''amount'', PStr ''500''),
         (''description'', PStr ''Consulting'')]) = Inr 11"
proof (intro conjI)
  let ?data = "[(''invoice_id'', PStr ''INV-1''), (''customer_name'', PStr ''Acme''),
                (''date'', PStr ''2024-01-01''), (''amount'', PStr ''500''),
                (''description'', PStr ''Consulting'')]"
  show "get_invoice_data rp
     (Frame \<lparr>columns = [''invoice_id'', ''customer_name'', ''date'', ''amount'', ''description''],
             rows = [[PStr ''INV-1'', PStr ''Acme'', PStr ''2024-01-01'', PStr ''500'',
                      PStr ''Consulting'']],
             dtypes = [Object, Object, Object, Object, Object],
             astype_keeps_missing = k\<rparr>)
     ''INV-1'' = Inr (PDict ?data)"
    by (simp add: getitem_def astype_str_def series_eq_def getitem_mask_def empty_frame_def
          iloc0_to_dict_def cell_def upcasts_to_float_def column_dtypes_def)
  show "case story para rp font_name ?data of
      Inl e \<Rightarrow> list_ex (\<lambda>t. para t = Some e) (paragraph_texts rp ?data)
    | Inr s \<Rightarrow> length s = 11"
  proof (cases "story para rp font_name ?data")
    case (Inl e)
    from story_raises_what_a_constructor_raises [OF Inl] show ?thesis
      using Inl by (simp add: list_ex_iff)
  next
    case (Inr s)
    from story_length [OF Inr] show ?thesis using Inr by simp
  qed
  show "map_sum (\<lambda>e. e) length (story strings_only rp font_name ?data) = Inr 11"
    by (simp add: story_def new_paragraph_def dict_get_def)
qed

text \<open>
  C5 as the claim states it: the story of that record is composed, and it does not
  have 9 elements.
\<close>

theorem scenario_A_story_is_not_nine_blocks:
  "\<forall>rp font_name.
     map_sum (\<lambda>e. e) length
       (story strings_only rp font_name
          [(''invoice_id'', PStr ''INV-1''), (''customer_name'', PStr ''Acme''),
           (''date'', PStr ''2024-01-01''), (''amount'', PStr ''500''),
           (''description'', PStr ''Consulting'')]) = Inr 11 \<and>
     (11 :: nat) \<noteq> 9"
  by (simp add: story_def new_paragraph_def dict_get_def)

text \<open>
  C6, as the code has it: for every record, whichever of its fields are absent, whose
  seven paragraph texts the constructor \<^verbatim>\<open>Paragraph\<close> takes (an absent field gives the text
  \<^verbatim>\<open>N/A\<close>), the story is composed without an exception, it holds exactly one title,
  exactly one emphasized line and exactly one table, the table has exactly 3 rows, and
  every block that shows an absent field shows \<^verbatim>\<open>N/A\<close> in its place: the paragraph of the
  invoice number and the third row of the table for \<^verbatim>\<open>invoice_id\<close>, the first row for
  \<^verbatim>\<open>customer_name\<close>, the second row and the closing line for \<^verbatim>\<open>date\<close>, the emphasized line
  for \<^verbatim>\<open>amount\<close>, the paragraph under the heading for \<^verbatim>\<open>description\<close>.
\<close>

theorem story_blocks_and_placeholders:
  assumes "list_all (\<lambda>t. para t = None) (paragraph_texts rp data)"
  shows "\<exists>s. story para rp fn data = Inr s \<and>
     length (filter is_title s) = 1 \<and>
     length (filter is_emphasized_line s) = 1 \<and>
     (\<exists>t. filter is_key_value_table s = [t] \<and> length (table_rows t) = 3) \<and>
     (map_of data ''invoice_id'' = None \<longrightarrow>
        s ! 1 = Paragraph (PStr (text_numero @ ''N/A'')) (normal_style fn) \<and>
        table_rows (s ! 3) ! 2 = [PStr text_invoice_number, PStr ''N/A'']) \<and>
     (map_of data ''customer_name'' = None \<longrightarrow>
        table_rows (s ! 3) ! 0 = [PStr text_customer, PStr ''N/A'']) \<and>
     (map_of data ''date'' = None \<longrightarrow>
        table_rows (s ! 3) ! 1 = [PStr text_date, PStr ''N/A''] \<and>
        s ! 10 = Paragraph (PStr (text_created @ ''N/A'')) (normal_style fn)) \<and>
     (map_of data ''amount'' = None \<longrightarrow>
        s ! 5 = Paragraph (PStr (text_amount @ ''N/A'' @ text_rouble)) (amount_style fn)) \<and>
     (map_of data ''description'' = None \<longrightarrow>
        s ! 7 = Paragraph (PStr ''N/A'') (normal_style fn))"
  unfolding story_accepted [OF assms]
  by (simp add: dict_get_def title_style_def normal_style_def heading_style_def amount_style_def)

theorem story_blocks_and_placeholders_witness:
  "\<forall>rp fn.
     list_all (\<lambda>t. strings_only t = None)
       (paragraph_texts rp [(''invoice_id'', PStr ''INV-2''), (''customer_name'', PStr ''Bob''),
                            (''date'', PStr ''2024-02-02'')]) \<and>
     map_of [(''invoice_id'', PStr ''INV-2''), (''customer_name'', PStr ''Bob''),
             (''date'', PStr ''2024-02-02'')] ''amount'' = None \<and>
     map_of [(''invoice_id'', PStr ''INV-2''), (''customer_name'', PStr ''Bob''),
             (''date'', PStr ''2024-02-02'')] ''description'' = None \<and>
     (\<exists>s. story strings_only rp fn
             [(''invoice_id'', PStr ''INV-2''), (''customer_name'', PStr ''Bob''),
              (''date'', PStr ''2024-02-02'')] = Inr s \<and>
          s ! 5 = Paragraph (PStr (text_amount @ ''N/A'' @ text_rouble)) (amount_style fn) \<and>
          s ! 7 = Paragraph (PStr ''N/A'') (normal_style fn) \<and>
          length (filter is_title s) = 1 \<and>
          length (filter is_emphasized_line s) = 1 \<and>
          (\<exists>t. filter is_key_value_table s = [t] \<and> length (table_rows t) = 3))"
proof (intro allI)
  fix rp fn
  let ?data = "[(''invoice_id'', PStr ''INV-2''), (''customer_name'', PStr ''Bob''),
                (''date'', PStr ''2024-02-02'')]"
  have h: "list_all (\<lambda>t. strings_only t = None) (paragraph_texts rp ?data)"
    by (simp add: paragraph_texts_def dict_get_def)
  have a: "map_of ?data ''amount'' = None" and d: "map_of ?data ''description'' = None"
    by simp_all
  from story_blocks_and_placeholders [OF h, of fn] a d h
  show "list_all (\<lambda>t. strings_only t = None) (paragraph_texts rp ?data) \<and>
     map_of ?data ''amount'' = None \<and> map_of ?data ''description'' = None \<and>
     (\<exists>s. story strings_only rp fn ?data = Inr s \<and>
          s ! 5 = Paragraph (PStr (text_amount @ ''N/A'' @ text_rouble)) (amount_style fn) \<and>
          s ! 7 = Paragraph (PStr ''N/A'') (normal_style fn) \<and>
          length (filter is_title s) = 1 \<and>
          length (filter is_emphasized_line s) = 1 \<and>
          (\<exists>t. filter is_key_value_table s = [t] \<and> length (table_rows t) = 3))"
    by blast
qed

text \<open>
  C6 as the claim states it (composition succeeds for every record) fails on a record
  whose description is NaN, as the row of a table with an empty description cell gives
  it: the constructor of the description paragraph raises, and the story is not
  composed.
\<close>

theorem story_of_nan_description_raises:
  "\<forall>rp fn.
     story strings_only rp fn
       [(''invoice_id'', PStr ''INV-3''), (''customer_name'', PStr ''Eve''),
        (''date'', PStr ''2024-03-03''), (''amount'', PStr ''7''),
        (''description'', PFloat ''nan'')]
     = Inl AttributeError"
  by (simp add: story_def new_paragraph_def dict_get_def)

section \<open>The renderer\<close>

text \<open>
  C7, as the code has it: an exception raised while \<^verbatim>\<open>generate_pdf\<close> runs is re-raised
  to its caller as it is, by the \<^verbatim>\<open>raise\<close> of the \<^verbatim>\<open>except\<close> clause: the exception of a
  constructor of the story, before \<^verbatim>\<open>doc.build\<close> is called and with the files as they
  were, or the exception of the layout engine, with the files exactly as the engine
  left them. \<^verbatim>\<open>generate_pdf\<close> writes to no temporary place and removes nothing, so after a
  failure of the engine the destination is absent or unchanged only where the engine
  itself leaves it so.
\<close>

theorem generate_pdf_reraises:
  "generate_pdf para rp build font_name data output_path fs = (Inl e, fs') \<longleftrightarrow>
     (story para rp font_name data = Inl e \<and> fs' = fs) \<or>
     (\<exists>flowables. story para rp font_name data = Inr flowables \<and>
        build (simple_doc_template output_path) flowables fs = (Some e, fs'))"
  by (auto simp: generate_pdf_def Let_def split: sum.splits prod.splits option.splits)

theorem generate_pdf_reraises_witness:
  "\<forall>rp.
     generate_pdf strings_only rp refusing_engine ''Helvetica'' [(''invoice_id'', PStr ''X1'')]
       ''output/invoice_X1.pdf'' [''output/invoice_X1.pdf'' \<mapsto> ''%PDF-1.4'']
     = (Inl (OtherError ''permission''), [''output/invoice_X1.pdf'' \<mapsto> ''%PDF-1.4''])"
proof
  fix rp
  let ?data = "[(''invoice_id'', PStr ''X1'')]"
  have "list_all (\<lambda>t. strings_only t = None) (paragraph_texts rp ?data)"
    by (simp add: paragraph_texts_def dict_get_def)
  from story_accepted [OF this, of "''Helvetica''"]
  show "generate_pdf strings_only rp refusing_engine ''Helvetica'' ?data
       ''output/invoice_X1.pdf'' [''output/invoice_X1.pdf'' \<mapsto> ''%PDF-1.4'']
     = (Inl (OtherError ''permission''), [''output/invoice_X1.pdf'' \<mapsto> ''%PDF-1.4''])"
    unfolding generate_pdf_reraises by (simp add: refusing_engine_def)
qed

text \<open>
  C7 as the claim states it (after a failure the destination is absent or unchanged)
  fails with an engine that has opened the destination when it fails: \<^verbatim>\<open>generate_pdf\<close>
  raises, and the earlier file at the destination has become an empty file.
\<close>

theorem generate_pdf_leaves_what_the_engine_left:
  "\<forall>rp.
     generate_pdf strings_only rp truncating_engine ''Helvetica'' [(''invoice_id'', PStr ''X1'')]
       ''output/invoice_X1.pdf'' [''output/invoice_X1.pdf'' \<mapsto> ''%PDF-1.4'']
     = (Inl (OtherError ''layout''), [''output/invoice_X1.pdf'' \<mapsto> '''']) \<and>
     [''output/invoice_X1.pdf'' \<mapsto> ''''] ''output/invoice_X1.pdf''
       \<noteq> [''output/invoice_X1.pdf'' \<mapsto> ''%PDF-1.4''] ''output/invoice_X1.pdf''"
  by (simp add: generate_pdf_def story_def new_paragraph_def dict_get_def truncating_engine_def
        simple_doc_template_def)

section \<open>The font resolver\<close>

text \<open>
  C8. \<^verbatim>\<open>setup_fonts\<close> never raises, and the font name it sets is \<^verbatim>\<open>CustomFont\<close> or
  \<^verbatim>\<open>Helvetica\<close>: \<^verbatim>\<open>CustomFont\<close>, registered from the first path of the platform's list that
  exists and registers without an exception, when there is such a path; \<^verbatim>\<open>Helvetica\<close>,
  with nothing registered, when there is none or when \<^verbatim>\<open>platform.system()\<close> raises.
\<close>

theorem setup_fonts_never_raises:
  "\<exists>font reg'. setup_fonts env reg = Inr (font, reg') \<and>
     font \<in> {''CustomFont'', ''Helvetica''} \<and>
     (case platform_system env of
        Inl e \<Rightarrow> font = ''Helvetica'' \<and> reg' = reg
      | Inr system \<Rightarrow>
          (case find (\<lambda>p. path_exists env p \<and> register_raises env p = None)
                  (font_paths system) of
             Some p \<Rightarrow> font = ''CustomFont'' \<and> reg' = reg(''CustomFont'' \<mapsto> p)
           | None \<Rightarrow> font = ''Helvetica'' \<and> reg' = reg))"
  by (auto simp: setup_fonts_def setup_fonts_body_def try_font_paths_find
        split: sum.splits option.splits)

theorem setup_fonts_never_raises_witness:
  "setup_fonts
     \<lparr>platform_system = Inr ''Linux'',
      path_exists = (\<lambda>p. p = ''/usr/share/fonts/truetype/dejavu/DejaVuSans.ttf''),
      register_raises = (\<lambda>p. None)\<rparr> Map.empty
   = Inr (''CustomFont'', [''CustomFont'' \<mapsto> ''/usr/share/fonts/truetype/dejavu/DejaVuSans.ttf''])"
  using setup_fonts_never_raises
    [of "\<lparr>platform_system = Inr ''Linux'',
          path_exists = (\<lambda>p. p = ''/usr/share/fonts/truetype/dejavu/DejaVuSans.ttf''),
          register_raises = (\<lambda>p. None)\<rparr>" Map.empty]
  by (auto simp: font_paths_def)

section \<open>Listing and lookup together\<close>

text \<open>
  C9, as the code has it: for every source that \<^verbatim>\<open>get_invoice_ids\<close> lists, and every
  string \<open>s\<close> of the listing, \<^verbatim>\<open>get_invoice_data\<close> returns a record that the caller accepts
  as found, provided that, in a hierarchical source, the first record whose identifier
  is \<open>s\<close> is not the empty mapping.
\<close>

theorem listed_identifier_is_found:
  assumes "get_invoice_ids rp src = Inr ids" and "PStr s \<in> set ids"
    and "\<forall>xs. hierarchical_records src = Some xs \<longrightarrow>
           find (\<lambda>x. resolved_id rp x = Inr s) xs \<noteq> Some (PDict [])"
  shows "\<exists>rec. get_invoice_data rp src s = Inr rec \<and> rec \<noteq> PDict [] \<and>
           run_lookup rp src s = Inr (Proceed rec)"
proof -
  have "\<exists>kvs. get_invoice_data rp src s = Inr (PDict kvs) \<and> kvs \<noteq> []"
  proof (cases src)
    case (Frame df)
    show ?thesis
    proof (cases "''invoice_id'' \<in> set (columns df)")
      case True
      with assms(1,2) Frame have
        "PStr s \<in> set (astype_str (astype_keeps_missing df) rp
                         (map (\<lambda>r. cell (columns df) r ''invoice_id'') (rows df)))"
        by (auto simp: getitem_def)
      from frame_lookup_finds_row [OF True this] show ?thesis
        using Frame True by (simp add: getitem_def)
    next
      case False
      show ?thesis
      proof (cases "''id'' \<in> set (columns df)")
        case True
        with assms(1,2) Frame False have
          "PStr s \<in> set (astype_str (astype_keeps_missing df) rp
                           (map (\<lambda>r. cell (columns df) r ''id'') (rows df)))"
          by (auto simp: getitem_def)
        from frame_lookup_finds_row [OF True this] show ?thesis
          using Frame True False by (simp add: getitem_def)
      next
        case no_id: False
        with assms(1,2) Frame False show ?thesis by simp
      qed
    qed
  next
    case (Val v)
    show ?thesis
    proof (cases v)
      case (PDict d)
      show ?thesis
      proof (cases "''invoices'' \<in> fst ` set d")
        case True
        with assms(1,2) Val PDict obtain invs ss where
          it: "py_iter (dict_get d ''invoices'' PNone) = Inr invs"
          and co: "comprehension (resolved_id rp) invs = Inr ss"
          and mem: "s \<in> set ss"
          by (auto simp: str_list_def split: sum.splits)
        from comprehension_scan [OF co mem] obtain item where
          sc: "scan rp invs s = Inr item"
          and ri: "resolved_id rp item = Inr s"
          and fi: "find (\<lambda>x. resolved_id rp x = Inr s) invs = Some item" by blast
        from resolved_id_is_dict [OF ri] obtain kvs where k: "item = PDict kvs" by blast
        from assms(3) Val PDict True it fi have "item \<noteq> PDict []" by auto
        with k sc show ?thesis using Val PDict True it by simp
      next
        case False
        with assms(1,2) Val PDict show ?thesis by simp
      qed
    qed (use assms(1,2) Val in auto)
  qed
  then show ?thesis
    by (auto simp: run_lookup_def)
qed

theorem listed_identifier_is_found_witness:
  "\<forall>rp.
     get_invoice_ids rp
       (Val (PDict [(''invoices'', PList [PDict [(''id'', PStr ''X1''), (''amount'', PStr ''10'')]])]))
       = Inr [PStr ''X1''] \<and>
     PStr ''X1'' \<in> set [PStr ''X1''] \<and>
     hierarchical_records
       (Val (PDict [(''invoices'', PList [PDict [(''id'', PStr ''X1''), (''amount'', PStr ''10'')]])]))
       = Some [PDict [(''id'', PStr ''X1''), (''amount'', PStr ''10'')]] \<and>
     find (\<lambda>x. resolved_id rp x = Inr ''X1'') [PDict [(''id'', PStr ''X1''), (''amount'', PStr ''10'')]]
       \<noteq> Some (PDict []) \<and>
     (\<exists>rec.
        get_invoice_data rp
          (Val (PDict [(''invoices'', PList [PDict [(''id'', PStr ''X1''), (''amount'', PStr ''10'')]])]))
          ''X1'' = Inr rec \<and>
        rec \<noteq> PDict [] \<and>
        run_lookup rp
          (Val (PDict [(''invoices'', PList [PDict [(''id'', PStr ''X1''), (''amount'', PStr ''10'')]])]))
          ''X1'' = Inr (Proceed rec))"
proof
  fix rp
  let ?r = "PDict [(''id'', PStr ''X1''), (''amount'', PStr ''10'')]"
  let ?src = "Val (PDict [(''invoices'', PList [?r])])"
  have 1: "get_invoice_ids rp ?src = Inr [PStr ''X1'']" by (simp add: dict_get_def str_list_def)
  have 2: "PStr ''X1'' \<in> set [PStr ''X1'']" by simp
  have h: "hierarchical_records ?src = Some [?r]" by (simp add: dict_get_def)
  have 4: "find (\<lambda>x. resolved_id rp x = Inr ''X1'') [?r] \<noteq> Some (PDict [])"
    by (simp add: dict_get_def)
  have 3: "\<forall>xs. hierarchical_records ?src = Some xs \<longrightarrow>
             find (\<lambda>x. resolved_id rp x = Inr ''X1'') xs \<noteq> Some (PDict [])"
    unfolding h using 4 by simp
  from listed_identifier_is_found [OF 1 2 3] 1 2 h 4
  show "get_invoice_ids rp ?src = Inr [PStr ''X1''] \<and> PStr ''X1'' \<in> set [PStr ''X1''] \<and>
     hierarchical_records ?src = Some [?r] \<and>
     find (\<lambda>x. resolved_id rp x = Inr ''X1'') [?r] \<noteq> Some (PDict []) \<and>
     (\<exists>rec. get_invoice_data rp ?src ''X1'' = Inr rec \<and> rec \<noteq> PDict [] \<and>
        run_lookup rp ?src ''X1'' = Inr (Proceed rec))"
    by blast
qed

text \<open>
  C9 as the claim states it fails on \<^verbatim>\<open>{"invoices": [{}]}\<close>: the listing holds the empty
  string, and the lookup of the empty string returns the empty mapping, the value of
  \<^verbatim>\<open>return {}\<close>, which the caller reports as not found.
\<close>

theorem listed_identifier_of_empty_record_is_not_found:
  "\<forall>rp.
     get_invoice_ids rp (Val (PDict [(''invoices'', PList [PDict []])])) = Inr [PStr ''''] \<and>
     get_invoice_data rp (Val (PDict [(''invoices'', PList [PDict []])])) '''' = Inr (PDict []) \<and>
     run_lookup rp (Val (PDict [(''invoices'', PList [PDict []])])) '''' = Inr ReportNotFound"
  by (simp add: dict_get_def str_list_def run_lookup_def)

text \<open>
  A missing identifier cell of a frame: where \<^verbatim>\<open>astype(str)\<close> keeps it, the listing holds
  NaN, which is no string, and no string retrieves the row; where \<^verbatim>\<open>astype(str)\<close> renders
  it, the listing holds the string \<^verbatim>\<open>nan\<close>, and that string retrieves the row.
\<close>

lemma missing_identifier_cell:
  "get_invoice_ids rp
     (Frame \<lparr>columns = [''invoice_id'', ''customer_name''],
             rows = [[PFloat ''nan'', PStr ''Acme'']],
             dtypes = [Float64, Object], astype_keeps_missing = True\<rparr>)
     = Inr [PFloat ''nan''] \<and>
   get_invoice_data rp
     (Frame \<lparr>columns = [''invoice_id'', ''customer_name''],
             rows = [[PFloat ''nan'', PStr ''Acme'']],
             dtypes = [Float64, Object], astype_keeps_missing = True\<rparr>) s
     = Inr (PDict []) \<and>
   get_invoice_ids rp
     (Frame \<lparr>columns = [''invoice_id'', ''customer_name''],
             rows = [[PFloat ''nan'', PStr ''Acme'']],
             dtypes = [Float64, Object], astype_keeps_missing = False\<rparr>)
     = Inr [PStr ''nan''] \<and>
   get_invoice_data rp
     (Frame \<lparr>columns = [''invoice_id'', ''customer_name''],
             rows = [[PFloat ''nan'', PStr ''Acme'']],
             dtypes = [Float64, Object], astype_keeps_missing = False\<rparr>) ''nan''
     = Inr (PDict [(''invoice_id'', PFloat ''nan''), (''customer_name'', PStr ''Acme'')])"
  by (simp add: getitem_def astype_str_def series_eq_def getitem_mask_def empty_frame_def
        iloc0_to_dict_def cell_def upcasts_to_float_def column_dtypes_def)

text \<open>
  The row that \<^verbatim>\<open>iloc[0]\<close> gives of a frame whose columns are \<^verbatim>\<open>int64\<close> and \<^verbatim>\<open>float64\<close>: the
  int identifier 1 comes back as the float 1.0.
\<close>

lemma numeric_row_comes_back_as_floats:
  "get_invoice_data rp
     (Frame \<lparr>columns = [''invoice_id'', ''amount''],
             rows = [[PInt 1, PFloat ''2.5'']],
             dtypes = [Int64, Float64], astype_keeps_missing = k\<rparr>) ''1''
     = Inr (PDict [(''invoice_id'', PFloatOfInt 1), (''amount'', PFloat ''2.5'')]) \<and>
   py_str rp (PFloatOfInt 1) = ''1.0''"
proof -
  have d: "digits (Suc 0) = ''1''" by code_simp
  show ?thesis
    by (simp add: getitem_def astype_str_def series_eq_def getitem_mask_def empty_frame_def
          iloc0_to_dict_def cell_def upcasts_to_float_def column_dtypes_def str_int_def d)
qed

text \<open>
  C10, as the code has it: in a hierarchical source, when a record that is the empty
  mapping is the first record whose identifier is the empty string (every record
  before it has an identifier, and not the empty one), the lookup of its identifier
  returns the empty mapping, which is the value the lookup returns when nothing matches
  (as among the records before it), and the caller reports it as not found.
\<close>

theorem empty_record_is_reported_not_found:
  assumes "hierarchical_records src = Some (pre @ PDict [] # post)"
    and "\<forall>x\<in>set pre. \<exists>i. resolved_id rp x = Inr i \<and> i \<noteq> ''''"
  shows "get_invoice_data rp src '''' = Inr (PDict []) \<and>
         run_lookup rp src '''' = Inr ReportNotFound \<and>
         get_invoice_data rp (Val (PList pre)) '''' = Inr (PDict [])"
proof -
  have s1: "scan rp (pre @ PDict [] # post) '''' = Inr (PDict [])"
    using scan_skips_non_matching [OF assms(2)] by (simp add: dict_get_def)
  have s2: "scan rp pre '''' = Inr (PDict [])"
    using scan_skips_non_matching [OF assms(2), of "[]"] by simp
  have "get_invoice_data rp src '''' = scan rp (pre @ PDict [] # post) ''''"
    using assms(1)
    by (induction src rule: hierarchical_records.induct) (auto split: if_splits sum.splits)
  with s1 s2 show ?thesis by (simp add: run_lookup_def)
qed

theorem empty_record_is_reported_not_found_witness:
  "\<forall>rp.
     hierarchical_records (Val (PDict [(''invoices'', PList [PDict [(''id'', PStr ''X1'')], PDict []])]))
       = Some ([PDict [(''id'', PStr ''X1'')]] @ PDict [] # []) \<and>
     resolved_id rp (PDict [(''id'', PStr ''X1'')]) = Inr ''X1'' \<and> ''X1'' \<noteq> '''' \<and>
     get_invoice_data rp (Val (PDict [(''invoices'', PList [PDict [(''id'', PStr ''X1'')], PDict []])])) ''''
       = Inr (PDict []) \<and>
     run_lookup rp (Val (PDict [(''invoices'', PList [PDict [(''id'', PStr ''X1'')], PDict []])])) ''''
       = Inr ReportNotFound \<and>
     get_invoice_data rp (Val (PList [PDict [(''id'', PStr ''X1'')]])) '''' = Inr (PDict [])"
proof
  fix rp
  let ?src = "Val (PDict [(''invoices'', PList [PDict [(''id'', PStr ''X1'')], PDict []])])"
  have 1: "hierarchical_records ?src = Some ([PDict [(''id'', PStr ''X1'')]] @ PDict [] # [])"
    by (simp add: dict_get_def)
  have r: "resolved_id rp (PDict [(''id'', PStr ''X1'')]) = Inr ''X1''"
    by (simp add: dict_get_def)
  have 2: "\<forall>x\<in>set [PDict [(''id'', PStr ''X1'')]]. \<exists>i. resolved_id rp x = Inr i \<and> i \<noteq> ''''"
    using r by simp
  from empty_record_is_reported_not_found [OF 1 2] 1 r
  show "hierarchical_records ?src = Some ([PDict [(''id'', PStr ''X1'')]] @ PDict [] # []) \<and>
     resolved_id rp (PDict [(''id'', PStr ''X1'')]) = Inr ''X1'' \<and> ''X1'' \<noteq> '''' \<and>
     get_invoice_data rp ?src '''' = Inr (PDict []) \<and>
     run_lookup rp ?src '''' = Inr ReportNotFound \<and>
     get_invoice_data rp (Val (PList [PDict [(''id'', PStr ''X1'')]])) '''' = Inr (PDict [])"
    by simp
qed

text \<open>
  C10 as the claim states it (for every hierarchical source that holds an empty
  mapping) fails on \<^verbatim>\<open>{"invoices": [{"name": "x"}, {}]}\<close>: both records are listed under the
  empty string, the lookup of the empty string returns the first, which is not empty,
  and the caller goes on with it.
\<close>

theorem empty_record_behind_another_is_not_reached:
  "\<forall>rp.
     get_invoice_ids rp (Val (PDict [(''invoices'', PList [PDict [(''name'', PStr ''x'')], PDict []])]))
       = Inr [PStr '''', PStr ''''] \<and>
     run_lookup rp (Val (PDict [(''invoices'', PList [PDict [(''name'', PStr ''x'')], PDict []])])) ''''
       = Inr (Proceed (PDict [(''name'', PStr ''x'')]))"
  by (simp add: dict_get_def str_list_def run_lookup_def)

end
